theory Spec2Isabelle
  imports Complex_Main
begin

section \<open>Scenario summary table (SummaryTable.jsx)\<close>

text \<open>
  JavaScript numbers are modelled as real numbers: the arithmetic of the table is the
  arithmetic of the source with rounding left out. Counts are natural numbers.
\<close>

subsection \<open>Risk classification badge\<close>

datatype risk_label = LOW | MEDIUM_LOW | MEDIUM | HIGH

datatype badge_class = badge_green | badge_amber | badge_red

text \<open>\<^verbatim>\<open>RiskBadge({ prob_profit, prob_drawdown })\<close>: the label and the CSS class of the span.\<close>

definition RiskBadge :: "real \<Rightarrow> real \<Rightarrow> risk_label \<times> badge_class" where
  "RiskBadge prob_profit prob_drawdown =
     (if prob_profit \<ge> 0.99 \<and> prob_drawdown < 0.01 then (LOW, badge_green)
      else if prob_profit \<ge> 0.90 \<and> prob_drawdown < 0.05 then (MEDIUM_LOW, badge_green)
      else if prob_profit \<ge> 0.70 then (MEDIUM, badge_amber)
      else (HIGH, badge_red))"

subsection \<open>Normal distribution function (Abramowitz and Stegun)\<close>

definition normalCDF :: "real \<Rightarrow> real" where
  "normalCDF x =
     (let t = 1 / (1 + 0.2316419 * \<bar>x\<bar>);
          d = 0.3989422820 * exp (- x * x / 2);
          p = d * t * (0.3193815 + t * (- 0.3565638 + t * (1.7814779
                + t * (- 1.8212560 + t * 1.3302744))))
      in if x \<ge> 0 then 1 - p else p)"

subsection \<open>Derived scenario rows\<close>

record metrics =
  total_trades :: nat
  mean_pnl :: real
  std_pnl :: real

record scenario_row =
  label :: string
  mean :: real
  median :: real
  p5 :: real
  p95 :: real
  probProfit :: real
  probDD :: real

text \<open>
  \<^verbatim>\<open>deriveRow(label, meanScale)\<close> closes over \<^verbatim>\<open>metrics\<close> and \<^verbatim>\<open>initialCapital\<close> of the
  enclosing component; here they are its first two arguments.
\<close>

definition deriveRow :: "metrics \<Rightarrow> real \<Rightarrow> string \<Rightarrow> real \<Rightarrow> scenario_row" where
  "deriveRow m ic lbl meanScale =
     (let n = real (total_trades m);
          std = std_pnl m;
          scaledMean = mean_pnl m * meanScale;
          newMean = ic + n * scaledMean;
          newMedian = ic + n * scaledMean * 0.97;
          newStd = sqrt n * std;
          newP5 = newMean - 1.645 * newStd;
          newP95 = newMean + 1.645 * newStd;
          z = (newMean - ic) / max newStd 1;
          probProfit = normalCDF z;
          zDD = (- 0.5 * ic - (newMean - ic)) / max newStd 1;
          probDD = 1 - normalCDF zDD
      in \<lparr>label = lbl, mean = newMean, median = newMedian, p5 = newP5, p95 = newP95,
          probProfit = probProfit, probDD = probDD\<rparr>)"

section \<open>Monte Carlo path fan chart (FanChart.jsx)\<close>

text \<open>
  The two \<^verbatim>\<open>useMemo\<close> bodies. Each \<^verbatim>\<open>for\<close> loop is a fold that pushes onto the end of
  \<^verbatim>\<open>out\<close>; \<^verbatim>\<open>null\<close> is \<open>None\<close>.
\<close>

definition fanX :: "real list list \<Rightarrow> nat option list" where
  "fanX sample_paths =
     fold (\<lambda>path out. fold (\<lambda>i out. out @ [Some i]) [0..<length path] out @ [None])
       sample_paths []"

definition fanY :: "real list list \<Rightarrow> real option list" where
  "fanY sample_paths =
     fold (\<lambda>path out. fold (\<lambda>v out. out @ [Some (v / 1000000)]) path out @ [None])
       sample_paths []"

section \<open>API client (api.js)\<close>

subsection \<open>JSON values and thrown errors\<close>

text \<open>
  A parsed JSON body. An object is the list of its members, each key once; \<open>map_of\<close>
  reads a key.
\<close>

datatype json =
    JNull
  | JBool bool
  | JNum real
  | JStr string
  | JArr "json list"
  | JObj "(string \<times> json) list"

text \<open>A JavaScript value that is either \<^verbatim>\<open>undefined\<close> or a JSON value.\<close>

datatype jsval = Undefined | Val json

text \<open>
  The message of an error object: a string, or the string \<^verbatim>\<open>JSON.stringify(v)\<close> of a JSON
  value \<open>v\<close>, which is kept symbolic (\<^verbatim>\<open>JSON.stringify\<close> is a built-in of the language; of
  its result only that it is a non-empty string is used).
\<close>

datatype message = Text string | Stringified json

datatype exn = Error message | SyntaxError message | TypeError message

fun exn_message :: "exn \<Rightarrow> message" where
  "exn_message (Error m) = m"
| "exn_message (SyntaxError m) = m"
| "exn_message (TypeError m) = m"

text \<open>
  The property read \<^verbatim>\<open>j.k\<close> on a parsed JSON value, for the keys \<^verbatim>\<open>detail\<close> and
  \<^verbatim>\<open>trades\<close> the client reads: reading a property of \<^verbatim>\<open>null\<close> throws a TypeError, an object
  gives its member or \<^verbatim>\<open>undefined\<close>, every other value gives \<^verbatim>\<open>undefined\<close>.
\<close>

fun field :: "json \<Rightarrow> string \<Rightarrow> exn + jsval" where
  "field JNull k =
     Inl (TypeError (Text (''Cannot read properties of null (reading '' @ k @ '')'')))"
| "field (JObj kvs) k = Inr (case map_of kvs k of None \<Rightarrow> Undefined | Some v \<Rightarrow> Val v)"
| "field _ k = Inr Undefined"

subsection \<open>Responses\<close>

text \<open>
  Of a \<^verbatim>\<open>Response\<close> the client reads \<^verbatim>\<open>ok\<close>, \<^verbatim>\<open>statusText\<close> and \<^verbatim>\<open>json()\<close>; \<open>json_result\<close> is
  what the promise \<^verbatim>\<open>res.json()\<close> settles to: the parsed body, or the error it rejects with
  when the body is not JSON.
\<close>

record response =
  ok :: bool
  statusText :: string
  json_result :: "exn + json"

text \<open>
  \<^verbatim>\<open>new Error(typeof detail === 'string' ? detail : JSON.stringify(detail))\<close>:
  \<^verbatim>\<open>JSON.stringify(undefined)\<close> is \<^verbatim>\<open>undefined\<close>, and \<^verbatim>\<open>new Error(undefined)\<close> has the empty
  message.
\<close>

fun error_of_detail :: "jsval \<Rightarrow> exn" where
  "error_of_detail (Val (JStr s)) = Error (Text s)"
| "error_of_detail (Val v) = Error (Stringified v)"
| "error_of_detail Undefined = Error (Text [])"

text \<open>
  \<^verbatim>\<open>res.json().then(j => j.detail).catch(() => res.statusText)\<close>: the handler of \<^verbatim>\<open>catch\<close>
  runs when \<^verbatim>\<open>res.json()\<close> rejects and when the property read throws.
\<close>

definition response_detail :: "response \<Rightarrow> jsval" where
  "response_detail res =
     (case json_result res of
        Inl _ \<Rightarrow> Val (JStr (statusText res))
      | Inr j \<Rightarrow> (case field j ''detail'' of
                   Inl _ \<Rightarrow> Val (JStr (statusText res))
                 | Inr d \<Rightarrow> d))"

definition handleResponse :: "response \<Rightarrow> exn + json" where
  "handleResponse res =
     (if \<not> ok res then Inl (error_of_detail (response_detail res))
      else json_result res)"

subsection \<open>Requests\<close>

type_synonym csv_file = string

record 't AnalysisRequest =
  trades :: 't
  initial_capital :: real
  n_simulations :: int
  n_sample_paths :: int

text \<open>
  The body of a request: a form with the file, or the JSON text of a payload (kept as the
  payload it is the text of).
\<close>

datatype body = FormData csv_file | JSON_body "jsval AnalysisRequest"

record request_init =
  http_method :: string
  headers :: "(string \<times> string) list"
  body :: body

type_synonym request = "string \<times> request_init"

text \<open>
  The network is outside the client. A server gives, for the requests sent so far (the
  last one is the current request), what \<^verbatim>\<open>fetch\<close> settles to: a response, or the error it
  rejects with. \<^verbatim>\<open>fetch\<close> appends the request to the list of requests sent.
\<close>

type_synonym server = "request list \<Rightarrow> exn + response"

definition fetch ::
  "server \<Rightarrow> string \<Rightarrow> request_init \<Rightarrow> request list \<Rightarrow> (exn + response) \<times> request list" where
  "fetch srv url init sent = (srv (sent @ [(url, init)]), sent @ [(url, init)])"

definition upload_request :: "string \<Rightarrow> csv_file \<Rightarrow> request" where
  "upload_request API_BASE f =
     (API_BASE @ ''/upload'', \<lparr>http_method = ''POST'', headers = [], body = FormData f\<rparr>)"

definition analyze_request :: "string \<Rightarrow> jsval AnalysisRequest \<Rightarrow> request" where
  "analyze_request API_BASE payload =
     (API_BASE @ ''/analyze'',
      \<lparr>http_method = ''POST'', headers = [(''Content-Type'', ''application/json'')],
       body = JSON_body payload\<rparr>)"

definition uploadFile ::
  "string \<Rightarrow> server \<Rightarrow> csv_file \<Rightarrow> request list \<Rightarrow> (exn + json) \<times> request list" where
  "uploadFile API_BASE srv f sent =
     (case fetch srv (fst (upload_request API_BASE f)) (snd (upload_request API_BASE f)) sent of
        (Inl e, sent') \<Rightarrow> (Inl e, sent')
      | (Inr res, sent') \<Rightarrow> (handleResponse res, sent'))"

definition runAnalysis ::
  "string \<Rightarrow> server \<Rightarrow> jsval AnalysisRequest \<Rightarrow> request list \<Rightarrow> (exn + json) \<times> request list" where
  "runAnalysis API_BASE srv payload sent =
     (case fetch srv (fst (analyze_request API_BASE payload))
             (snd (analyze_request API_BASE payload)) sent of
        (Inl e, sent') \<Rightarrow> (Inl e, sent')
      | (Inr res, sent') \<Rightarrow> (handleResponse res, sent'))"

section \<open>Dashboard state (App.jsx)\<close>

text \<open>\<^verbatim>\<open>null\<close> is \<open>None\<close> for the error and \<open>JNull\<close> for the results.\<close>

record app_state =
  loading :: bool
  error :: "message option"
  results :: json
  initialCapital :: real

text \<open>\<^verbatim>\<open>err.message || 'An unexpected error occurred.'\<close>: the empty string is falsy.\<close>

definition message_or_default :: "message \<Rightarrow> message" where
  "message_or_default m = (if m = Text [] then Text ''An unexpected error occurred.'' else m)"

definition catch_error :: "exn \<Rightarrow> app_state \<Rightarrow> app_state" where
  "catch_error err st = st\<lparr>error := Some (message_or_default (exn_message err))\<rparr>"

definition finally_block :: "app_state \<Rightarrow> app_state" where
  "finally_block st = st\<lparr>loading := False\<rparr>"

definition handleUpload ::
  "string \<Rightarrow> server \<Rightarrow> csv_file \<Rightarrow> app_state \<Rightarrow> request list \<Rightarrow> app_state \<times> request list" where
  "handleUpload API_BASE srv f st sent =
     (let st1 = st\<lparr>loading := True, error := None, results := JNull\<rparr> in
      case uploadFile API_BASE srv f sent of
        (Inl err, sent1) \<Rightarrow> (finally_block (catch_error err st1), sent1)
      | (Inr uploadData, sent1) \<Rightarrow>
          (case field uploadData ''trades'' of
             Inl err \<Rightarrow> (finally_block (catch_error err st1), sent1)
           | Inr tr \<Rightarrow>
               (case runAnalysis API_BASE srv
                       \<lparr>trades = tr, initial_capital = initialCapital st,
                        n_simulations = 10000, n_sample_paths = 500\<rparr> sent1 of
                  (Inl err, sent2) \<Rightarrow> (finally_block (catch_error err st1), sent2)
                | (Inr analysisData, sent2) \<Rightarrow>
                    (finally_block (st1\<lparr>results := analysisData\<rparr>), sent2))))"

text \<open>The payloads of the analysis requests among the requests sent.\<close>

fun analysis_payloads :: "request list \<Rightarrow> jsval AnalysisRequest list" where
  "analysis_payloads [] = []"
| "analysis_payloads ((url, init) # rs) =
     (case body init of
        JSON_body p \<Rightarrow> p # analysis_payloads rs
      | FormData _ \<Rightarrow> analysis_payloads rs)"

section \<open>Analytics and simulation engine (backend)\<close>

text \<open>
  The engine (\<^verbatim>\<open>backend/analytics.py\<close>, \<^verbatim>\<open>backend/monte_carlo.py\<close>, \<^verbatim>\<open>backend/models.py\<close>,
  \<^verbatim>\<open>backend/main.py\<close>) is not among the sources. The definitions of this section follow
  the specification's description of it, over the reals, and cover the request
  validation, the historical equity curve, and the bootstrap ensemble with its
  percentile bands and final-equity percentiles.
\<close>

text \<open>Modelled from the spec: the TradeRecord of the data model (section 3); the
  backend's trade model is missing.\<close>

record trade =
  symbol :: string
  entry_time :: int
  exit_time :: int
  quantity :: real
  entry_price :: real
  exit_price :: real
  pnl :: real
  notional :: real

text \<open>Modelled from the spec: the InvalidInput error of the error taxonomy (section 7),
  with the offending parameter; the backend's error type is missing.\<close>

datatype engine_error = InvalidInput string

text \<open>Modelled from the spec: the request contract (section 6): at least one trade,
  \<open>initial_capital > 0\<close>, \<open>n_simulations > 0\<close>, \<open>0 < n_sample_paths \<le> n_simulations\<close>; the
  backend's request model is missing.\<close>

definition valid_request :: "trade list AnalysisRequest \<Rightarrow> bool" where
  "valid_request req \<longleftrightarrow>
     trades req \<noteq> [] \<and> initial_capital req > 0 \<and> n_simulations req > 0
     \<and> n_sample_paths req > 0 \<and> n_sample_paths req \<le> n_simulations req"

text \<open>Modelled from the spec: the input check of section 7, in the order the spec lists
  the causes; the backend's validation is missing.\<close>

definition validate :: "trade list AnalysisRequest \<Rightarrow> engine_error option" where
  "validate req =
     (if trades req = [] then Some (InvalidInput ''trades'')
      else if initial_capital req \<le> 0 then Some (InvalidInput ''initial_capital'')
      else if n_simulations req \<le> 0 then Some (InvalidInput ''n_simulations'')
      else if n_sample_paths req \<le> 0 then Some (InvalidInput ''n_sample_paths'')
      else if n_sample_paths req > n_simulations req then Some (InvalidInput ''n_sample_paths'')
      else None)"

text \<open>Modelled from the spec: the cumulative sum of a P&L series (sections 4.1 and 4.2,
  step 3), as a running total; the backend's array code is missing.\<close>

fun cumsum_from :: "real \<Rightarrow> real list \<Rightarrow> real list" where
  "cumsum_from acc [] = []"
| "cumsum_from acc (x # xs) = (acc + x) # cumsum_from (acc + x) xs"

text \<open>Modelled from the spec: the cumulative sum started at zero.\<close>

definition cumsum :: "real list \<Rightarrow> real list" where
  "cumsum xs = cumsum_from 0 xs"

text \<open>Modelled from the spec: the equity path of a P&L series, its cumulative sum plus
  the initial capital (section 4.1, historical equity curve; section 4.2, step 3).\<close>

definition equity_path :: "real \<Rightarrow> real list \<Rightarrow> real list" where
  "equity_path C p = map (\<lambda>s. C + s) (cumsum p)"

text \<open>Modelled from the spec: the percentile by linear interpolation between order
  statistics (section 4.2, percentile definition): position \<open>(n - 1) * q / 100\<close> in the
  sorted sample; the backend's percentile call is missing.\<close>

definition percentile :: "real list \<Rightarrow> real \<Rightarrow> real" where
  "percentile xs q =
     (let ys = sort xs;
          h = (real (length ys) - 1) * q / 100;
          lo = nat \<lfloor>h\<rfloor>;
          hi = min (lo + 1) (length ys - 1)
      in ys ! lo + (h - real lo) * (ys ! hi - ys ! lo))"

text \<open>Modelled from the spec: the median of the final equities (section 4.2, step 5):
  the middle order statistic, or the mean of the two middle ones.\<close>

definition median_of :: "real list \<Rightarrow> real" where
  "median_of xs =
     (let ys = sort xs; n = length ys
      in if odd n then ys ! (n div 2) else (ys ! (n div 2 - 1) + ys ! (n div 2)) / 2)"

text \<open>Modelled from the spec: the random source is a parameter (section 9, injectable
  generator): \<open>draw s j\<close> is the raw draw for position \<open>j\<close> of simulation row \<open>s\<close>, reduced
  modulo the trade count to an index.\<close>

type_synonym rng = "nat \<Rightarrow> nat \<Rightarrow> nat"

text \<open>Modelled from the spec: steps 1 and 2 of the bootstrap (section 4.2): \<open>S\<close> rows of
  \<open>n\<close> P&L values drawn with replacement.\<close>

definition resample :: "rng \<Rightarrow> real list \<Rightarrow> nat \<Rightarrow> real list list" where
  "resample draw p S =
     map (\<lambda>s. map (\<lambda>j. p ! (draw s j mod length p)) [0..<length p]) [0..<S]"

text \<open>Modelled from the spec: step 3 of the bootstrap: the equity path of each row.\<close>

definition simulate :: "rng \<Rightarrow> real list \<Rightarrow> real \<Rightarrow> nat \<Rightarrow> real list list" where
  "simulate draw p C S = map (equity_path C) (resample draw p S)"

text \<open>Modelled from the spec: step 6 of the bootstrap: the cross-section of the ensemble
  at time index \<open>j\<close>.\<close>

definition column :: "nat \<Rightarrow> real list list \<Rightarrow> real list" where
  "column j rows = map (\<lambda>row. row ! j) rows"

text \<open>Modelled from the spec: step 6 of the bootstrap: the curve of the \<open>q\<close>-th
  percentile of the cross-sections, for the time indices \<open>0..n-1\<close>.\<close>

definition band :: "real list list \<Rightarrow> nat \<Rightarrow> real \<Rightarrow> real list" where
  "band paths n q = map (\<lambda>j. percentile (column j paths) q) [0..<n]"

text \<open>Modelled from the spec: \<^verbatim>\<open>equity_curve\<close> of the response contract (section 6);
  \<^verbatim>\<open>times\<close> is \<open>exit_times\<close> here. The backend's response model is missing.\<close>

record EquityCurve =
  exit_times :: "int list"
  equity :: "real list"

text \<open>Modelled from the spec: \<^verbatim>\<open>mc_distribution\<close> of the response contract, for the final
  equities, their mean, median and percentiles; \<^verbatim>\<open>p5\<close> and \<^verbatim>\<open>p95\<close> are \<open>p5_final\<close> and
  \<open>p95_final\<close> here.\<close>

record DistributionSummary =
  final_equities :: "real list"
  mean_final :: real
  median_final :: real
  p5_final :: real
  p95_final :: real

text \<open>Modelled from the spec: \<^verbatim>\<open>mc_paths\<close> of the response contract.\<close>

record PathBands =
  median_path :: "real list"
  p5_path :: "real list"
  p25_path :: "real list"
  p75_path :: "real list"
  p95_path :: "real list"
  sample_paths :: "real list list"

text \<open>Modelled from the spec: the response contract, for the series the properties
  are about.\<close>

record AnalysisResponse =
  mc_distribution :: DistributionSummary
  mc_paths :: PathBands
  equity_curve :: EquityCurve
  pnl_series :: "real list"

text \<open>Modelled from the spec: the engine (sections 2, 4 and 7): validation first, then
  the statistics and the bootstrap, then the assembly of the response. The first
  component lists the arrays allocated, each by its shape: the \<open>(S, n)\<close> ensemble. The
  backend's \<^verbatim>\<open>/analyze\<close> handler is missing.\<close>

definition run_engine ::
  "rng \<Rightarrow> trade list AnalysisRequest \<Rightarrow> (nat \<times> nat) list \<times> (engine_error + AnalysisResponse)" where
  "run_engine draw req =
     (case validate req of
        Some e \<Rightarrow> ([], Inl e)
      | None \<Rightarrow>
          (let p = map pnl (trades req);
               C = initial_capital req;
               S = nat (n_simulations req);
               M = nat (n_sample_paths req);
               n = length p;
               paths = simulate draw p C S;
               finals = map last paths
           in ([(S, n)],
               Inr \<lparr>mc_distribution =
                      \<lparr>final_equities = finals,
                       mean_final = sum_list finals / real S,
                       median_final = median_of finals,
                       p5_final = percentile finals 5,
                       p95_final = percentile finals 95\<rparr>,
                    mc_paths =
                      \<lparr>median_path = band paths n 50,
                       p5_path = band paths n 5,
                       p25_path = band paths n 25,
                       p75_path = band paths n 75,
                       p95_path = band paths n 95,
                       sample_paths = take M paths\<rparr>,
                    equity_curve =
                      \<lparr>exit_times = map exit_time (trades req), equity = equity_path C p\<rparr>,
                    pnl_series = p\<rparr>)))"

text \<open>Modelled from the spec: what the engine returns to its caller.\<close>

definition analyze :: "rng \<Rightarrow> trade list AnalysisRequest \<Rightarrow> engine_error + AnalysisResponse" where
  "analyze draw req = snd (run_engine draw req)"

section \<open>Example inputs\<close>

text \<open>
  A dashboard state, four servers (one that answers every request with an \<^verbatim>\<open>ok\<close> body,
  one that answers every request with an error body, one whose body is \<^verbatim>\<open>null\<close>, one that
  accepts the upload and refuses the analysis), and the three-trade scenario of the
  specification with a fixed draw function.
\<close>

definition example_state :: app_state where
  "example_state = \<lparr>loading = False, error = None, results = JNull, initialCapital = 1000000\<rparr>"

definition example_server :: server where
  "example_server sent =
     Inr \<lparr>ok = True, statusText = ''OK'', json_result = Inr (JObj [(''trades'', JArr [])])\<rparr>"

definition failing_server :: server where
  "failing_server sent =
     Inr \<lparr>ok = False, statusText = ''Bad Request'',
          json_result = Inr (JObj [(''detail'', JStr ''No valid trades'')])\<rparr>"



definition example_trade :: "int \<Rightarrow> real \<Rightarrow> trade" where
  "example_trade t v =
     \<lparr>symbol = ''SPY'', entry_time = t, exit_time = t + 1, quantity = 1, entry_price = 100,
      exit_price = 100 + v, pnl = v, notional = 100\<rparr>"

definition example_request :: "trade list AnalysisRequest" where
  "example_request =
     \<lparr>trades = [example_trade 0 100, example_trade 1 (- 50), example_trade 2 200],
      initial_capital = 1000, n_simulations = 4, n_sample_paths = 2\<rparr>"

definition example_draw :: rng where
  "example_draw s j = s * j + s div 2"

section \<open>Properties\<close>

subsection \<open>Fan chart\<close>

lemma fold_push: "fold (\<lambda>x out. out @ [f x]) xs acc = acc @ map f xs"
  by (induction xs arbitrary: acc) simp_all

lemma fold_push_paths:
  "fold (\<lambda>path out. fold (\<lambda>x out. out @ [f x]) (g path) out @ [s]) ps acc
     = acc @ concat (map (\<lambda>path. map f (g path) @ [s]) ps)"
  by (induction ps arbitrary: acc) (simp_all add: fold_push)

lemma fanX_concat:
  "fanX ps = concat (map (\<lambda>path. map Some [0..<length path] @ [None]) ps)"
  unfolding fanX_def by (simp add: fold_push_paths)

lemma fanY_concat:
  "fanY ps = concat (map (\<lambda>path. map (\<lambda>v. Some (v / 1000000)) path @ [None]) ps)"
  unfolding fanY_def using fold_push_paths [of "\<lambda>v. Some (v / 1000000)" "\<lambda>p. p" None ps "[]"]
  by simp

lemma length_concat_sep:
  "length (concat (map (\<lambda>path. map f (g path) @ [s]) ps))
     = (\<Sum>path\<leftarrow>ps. length (g path) + 1)"
  by (induction ps) simp_all

text \<open>
  C9. For every list of sample paths, \<open>fanX\<close> and \<open>fanY\<close> have the same length, the sum
  over the paths of (path length + 1), and each is the concatenation, path by path, of
  the path's points followed by exactly one \<^verbatim>\<open>null\<close>.
\<close>

theorem fan_arrays_shape:
  "length (fanX ps) = length (fanY ps)
   \<and> length (fanX ps) = (\<Sum>path\<leftarrow>ps. length path + 1)
   \<and> fanX ps = concat (map (\<lambda>path. map Some [0..<length path] @ [None]) ps)
   \<and> fanY ps = concat (map (\<lambda>path. map (\<lambda>v. Some (v / 1000000)) path @ [None]) ps)"
proof -
  have x: "length (fanX ps) = (\<Sum>path\<leftarrow>ps. length path + 1)"
    using length_concat_sep [of Some "\<lambda>p. [0..<length p]" None ps]
    by (simp add: fanX_concat)
  have y: "length (fanY ps) = (\<Sum>path\<leftarrow>ps. length path + 1)"
    using length_concat_sep [of "\<lambda>v. Some (v / 1000000)" "\<lambda>p. p" None ps]
    by (simp add: fanY_concat)
  show ?thesis
    using x y fanX_concat [of ps] fanY_concat [of ps] by simp
qed

subsection \<open>Risk badge\<close>

text \<open>
  C10. For every pair of probabilities the badge has exactly one label: LOW iff
  \<open>prob_profit \<ge> 0.99\<close> and \<open>prob_drawdown < 0.01\<close>; otherwise MEDIUM-LOW iff
  \<open>prob_profit \<ge> 0.90\<close> and \<open>prob_drawdown < 0.05\<close>; otherwise MEDIUM iff
  \<open>prob_profit \<ge> 0.70\<close>; otherwise HIGH.
\<close>

theorem RiskBadge_label:
  "(fst (RiskBadge pp pd) = LOW \<longleftrightarrow> pp \<ge> 0.99 \<and> pd < 0.01)
   \<and> (fst (RiskBadge pp pd) = MEDIUM_LOW \<longleftrightarrow>
        \<not> (pp \<ge> 0.99 \<and> pd < 0.01) \<and> pp \<ge> 0.90 \<and> pd < 0.05)
   \<and> (fst (RiskBadge pp pd) = MEDIUM \<longleftrightarrow>
        \<not> (pp \<ge> 0.99 \<and> pd < 0.01) \<and> \<not> (pp \<ge> 0.90 \<and> pd < 0.05) \<and> pp \<ge> 0.70)
   \<and> (fst (RiskBadge pp pd) = HIGH \<longleftrightarrow>
        \<not> (pp \<ge> 0.99 \<and> pd < 0.01) \<and> \<not> (pp \<ge> 0.90 \<and> pd < 0.05) \<and> \<not> pp \<ge> 0.70)"
  unfolding RiskBadge_def by auto

subsection \<open>Normal distribution function\<close>

text \<open>
  C8. For every real \<open>x > 0\<close>, \<open>normalCDF x + normalCDF (- x) = 1\<close>: both calls compute the
  same tail \<open>p\<close>, and the first returns \<open>1 - p\<close>, the second \<open>p\<close>.
\<close>

theorem normalCDF_symmetric:
  "0 < x \<Longrightarrow> normalCDF x + normalCDF (- x) = 1"
  unfolding normalCDF_def Let_def by simp

theorem normalCDF_symmetric_witness:
  "(0::real) < 2 \<and> normalCDF 2 + normalCDF (- 2) = 1"
  using normalCDF_symmetric [of 2] by simp

subsection \<open>Derived scenario rows\<close>

lemma normalCDF_expand:
  "(\<lambda>x. let t = 1 / (1 + 0.2316419 * \<bar>x\<bar>);
            d = 0.3989422820 * exp (- x * x / 2);
            p = d * t * (0.3193815 + t * (- 0.3565638 + t * (1.7814779
                  + t * (- 1.8212560 + t * 1.3302744))))
        in if x \<ge> 0 then 1 - p else p) = normalCDF"
  by (rule ext) (simp only: normalCDF_def)

lemma normalCDF_zero: "normalCDF 0 = 1 - 0.3989422820 * 1.253314"
  by (simp add: normalCDF_def Let_def)

text \<open>
  C4. For every metrics input and every mean-scale factor, the derived row is a closed
  form of the metrics, the initial capital and the scale (no simulation is run):
  mean = initial capital + total trades * (mean pnl * scale), the final standard
  deviation is sqrt (total trades) * std pnl, p5 and p95 are the mean minus and plus
  1.645 final standard deviations, and the two probabilities are the Abramowitz and
  Stegun polynomial approximation of the normal distribution function (the body of
  \<open>normalCDF\<close>, written out) at z-scores whose denominator is the final standard
  deviation, or 1 when that is below 1. At scale 0 the z-score of the profit is 0 and
  the probability of profit is the approximation's value there.
\<close>

theorem deriveRow_closed_form:
  "(let r = deriveRow m ic lbl scale;
        mu = ic + real (total_trades m) * (mean_pnl m * scale);
        std_final = sqrt (real (total_trades m)) * std_pnl m;
        den = (if std_final < 1 then 1 else std_final);
        Phi = (\<lambda>x. let t = 1 / (1 + 0.2316419 * \<bar>x\<bar>);
                      d = 0.3989422820 * exp (- x * x / 2);
                      p = d * t * (0.3193815 + t * (- 0.3565638 + t * (1.7814779
                            + t * (- 1.8212560 + t * 1.3302744))))
                  in if x \<ge> 0 then 1 - p else p)
    in mean r = mu
       \<and> p5 r = mu - 1.645 * std_final
       \<and> p95 r = mu + 1.645 * std_final
       \<and> probProfit r = Phi ((mu - ic) / den)
       \<and> probDD r = 1 - Phi ((- 0.5 * ic - (mu - ic)) / den)
       \<and> probProfit r = normalCDF ((mu - ic) / max std_final 1)
       \<and> probDD r = 1 - normalCDF ((- 0.5 * ic - (mu - ic)) / max std_final 1))
   \<and> probProfit (deriveRow m ic lbl 0) = 1 - 0.3989422820 * 1.253314"
proof -
  have den: "max (sqrt (real (total_trades m)) * std_pnl m) 1
      = (if sqrt (real (total_trades m)) * std_pnl m < 1 then 1
         else sqrt (real (total_trades m)) * std_pnl m)"
    by (simp add: max_def)
  have a: "probProfit (deriveRow m ic lbl 0) = normalCDF 0"
    by (simp add: deriveRow_def Let_def)
  have b: "probProfit (deriveRow m ic lbl 0) = 1 - 0.3989422820 * 1.253314"
    unfolding a by (rule normalCDF_zero)
  have c: "(let r = deriveRow m ic lbl scale;
        mu = ic + real (total_trades m) * (mean_pnl m * scale);
        std_final = sqrt (real (total_trades m)) * std_pnl m;
        den = (if std_final < 1 then 1 else std_final);
        Phi = normalCDF
    in mean r = mu
       \<and> p5 r = mu - 1.645 * std_final
       \<and> p95 r = mu + 1.645 * std_final
       \<and> probProfit r = Phi ((mu - ic) / den)
       \<and> probDD r = 1 - Phi ((- 0.5 * ic - (mu - ic)) / den)
       \<and> probProfit r = normalCDF ((mu - ic) / max std_final 1)
       \<and> probDD r = 1 - normalCDF ((- 0.5 * ic - (mu - ic)) / max std_final 1))"
    by (simp add: deriveRow_def Let_def den)
  show ?thesis
    unfolding normalCDF_expand using b c by (rule conjI [rotated])
qed

subsection \<open>API client\<close>

text \<open>
  C6, amended. For every response whose \<^verbatim>\<open>ok\<close> flag is false, \<open>handleResponse\<close> rejects
  with an \<^verbatim>\<open>Error\<close> and returns no result. When the body is a JSON object with a
  \<^verbatim>\<open>detail\<close> member, the message carries it: the detail itself when it is a string,
  \<^verbatim>\<open>JSON.stringify(detail)\<close> otherwise. When the body is not JSON, or is \<^verbatim>\<open>null\<close>, the
  message is the status text. For every \<^verbatim>\<open>ok\<close> response, \<open>handleResponse\<close> returns what
  \<^verbatim>\<open>res.json()\<close> settles to: the parsed body, or the rejection of the parser when the body
  is not JSON. \<open>uploadFile\<close> and \<open>runAnalysis\<close> return what \<open>handleResponse\<close> returns on the
  response \<^verbatim>\<open>fetch\<close> yields.
\<close>

theorem handleResponse_outcome:
  "(\<not> ok res \<longrightarrow> (\<exists>m. handleResponse res = Inl (Error m)))
   \<and> (\<not> ok res \<and> json_result res = Inr (JObj kvs) \<and> map_of kvs ''detail'' = Some (JStr s) \<longrightarrow>
        handleResponse res = Inl (Error (Text s)))
   \<and> (\<not> ok res \<and> json_result res = Inr (JObj kvs) \<and> map_of kvs ''detail'' = Some v
        \<and> (\<forall>t. v \<noteq> JStr t) \<longrightarrow>
        handleResponse res = Inl (Error (Stringified v)))
   \<and> (\<not> ok res \<and> (json_result res = Inl e \<or> json_result res = Inr JNull) \<longrightarrow>
        handleResponse res = Inl (Error (Text (statusText res))))
   \<and> (ok res \<longrightarrow> handleResponse res = json_result res)
   \<and> (srv (sent @ [upload_request B f]) = Inr res \<longrightarrow>
        fst (uploadFile B srv f sent) = handleResponse res)
   \<and> (srv (sent @ [analyze_request B p]) = Inr res \<longrightarrow>
        fst (runAnalysis B srv p sent) = handleResponse res)"
proof -
  have a: "\<not> ok res \<Longrightarrow> \<exists>m. handleResponse res = Inl (Error m)"
    unfolding handleResponse_def
    by (cases "response_detail res" rule: error_of_detail.cases) simp_all
  have b: "map_of kvs ''detail'' = Some v \<Longrightarrow> \<forall>t. v \<noteq> JStr t \<Longrightarrow>
      error_of_detail (Val v) = Error (Stringified v)"
    by (cases v) simp_all
  show ?thesis
    using a b
    by (auto simp: handleResponse_def response_detail_def uploadFile_def runAnalysis_def
        fetch_def upload_request_def analyze_request_def)
qed

theorem handleResponse_outcome_witness:
  "handleResponse \<lparr>ok = False, statusText = ''Unprocessable Entity'',
       json_result = Inr (JObj [(''detail'', JStr ''No valid trades'')])\<rparr>
     = Inl (Error (Text ''No valid trades''))
   \<and> handleResponse \<lparr>ok = False, statusText = ''Unprocessable Entity'',
       json_result = Inr (JObj [(''detail'', JArr [JStr ''body'', JStr ''trades''])])\<rparr>
     = Inl (Error (Stringified (JArr [JStr ''body'', JStr ''trades''])))
   \<and> handleResponse \<lparr>ok = False, statusText = ''Bad Gateway'',
       json_result = Inl (SyntaxError (Text ''Unexpected token''))\<rparr>
     = Inl (Error (Text ''Bad Gateway''))
   \<and> handleResponse \<lparr>ok = True, statusText = ''OK'', json_result = Inr (JObj [(''trades'', JArr [])])\<rparr>
     = Inr (JObj [(''trades'', JArr [])])
   \<and> fst (uploadFile [] example_server ''csv'' []) = Inr (JObj [(''trades'', JArr [])])
   \<and> fst (runAnalysis [] failing_server
         \<lparr>trades = Undefined, initial_capital = 1, n_simulations = 10000, n_sample_paths = 500\<rparr> [])
       = Inl (Error (Text ''No valid trades''))"
proof -
  let ?r1 = "\<lparr>ok = False, statusText = ''Unprocessable Entity'',
       json_result = Inr (JObj [(''detail'', JStr ''No valid trades'')])\<rparr>"
  let ?r2 = "\<lparr>ok = False, statusText = ''Unprocessable Entity'',
       json_result = Inr (JObj [(''detail'', JArr [JStr ''body'', JStr ''trades''])])\<rparr>"
  let ?r3 = "\<lparr>ok = False, statusText = ''Bad Gateway'',
       json_result = Inl (SyntaxError (Text ''Unexpected token''))\<rparr>"
  let ?r4 = "\<lparr>ok = True, statusText = ''OK'', json_result = Inr (JObj [(''trades'', JArr [])])\<rparr>"
  let ?r5 = "\<lparr>ok = False, statusText = ''Bad Request'',
          json_result = Inr (JObj [(''detail'', JStr ''No valid trades'')])\<rparr>"
  let ?p = "\<lparr>trades = Undefined, initial_capital = 1, n_simulations = 10000, n_sample_paths = 500\<rparr>"
  have c1: "handleResponse ?r1 = Inl (Error (Text ''No valid trades''))"
    using handleResponse_outcome [of ?r1 "[(''detail'', JStr ''No valid trades'')]" "''No valid trades''"]
    by simp
  have c2: "handleResponse ?r2 = Inl (Error (Stringified (JArr [JStr ''body'', JStr ''trades''])))"
    using handleResponse_outcome [of ?r2 "[(''detail'', JArr [JStr ''body'', JStr ''trades''])]" _
        "JArr [JStr ''body'', JStr ''trades'']"]
    by simp
  have c3: "handleResponse ?r3 = Inl (Error (Text ''Bad Gateway''))"
    using handleResponse_outcome [of ?r3 _ _ _ "SyntaxError (Text ''Unexpected token'')"]
    by simp
  have c4: "handleResponse ?r4 = Inr (JObj [(''trades'', JArr [])])"
    using handleResponse_outcome [of ?r4] by simp
  have c5: "fst (uploadFile [] example_server ''csv'' []) = handleResponse ?r4"
    using handleResponse_outcome [of ?r4 _ _ _ _ example_server "[]" "[]" "''csv''"]
    by (simp add: example_server_def)
  have c6: "fst (runAnalysis [] failing_server ?p []) = handleResponse ?r5"
    using handleResponse_outcome [of ?r5 _ _ _ _ failing_server "[]" "[]" _ ?p]
    by (simp add: failing_server_def)
  have c7: "handleResponse ?r5 = Inl (Error (Text ''No valid trades''))"
    using handleResponse_outcome [of ?r5 "[(''detail'', JStr ''No valid trades'')]" "''No valid trades''"]
    by simp
  show ?thesis using c1 c2 c3 c4 c5 c6 c7 by simp
qed

text \<open>
  C6 in its original wording fails at two responses: a response that is not \<^verbatim>\<open>ok\<close> and
  whose JSON body has no \<^verbatim>\<open>detail\<close> member is rejected with the empty message (neither a
  detail nor the status text), and an \<^verbatim>\<open>ok\<close> response whose body is not JSON is rejected
  with the parser's error instead of returning a parsed body.
\<close>

theorem handleResponse_counterexample:
  "handleResponse \<lparr>ok = False, statusText = ''Bad Request'',
       json_result = Inr (JObj [(''error'', JStr ''bad csv'')])\<rparr>
     = Inl (Error (Text []))
   \<and> handleResponse \<lparr>ok = True, statusText = ''OK'',
       json_result = Inl (SyntaxError (Text ''Unexpected token''))\<rparr>
     = Inl (SyntaxError (Text ''Unexpected token''))"
  by (simp add: handleResponse_def response_detail_def)

subsection \<open>Dashboard\<close>

text \<open>
  The requests of one run of \<open>handleUpload\<close>: the upload, and after it at most one
  analysis request.
\<close>

lemma handleUpload_sent:
  "snd (handleUpload B srv f st sent) = sent @ [upload_request B f]
   \<or> (\<exists>u tr. fst (uploadFile B srv f sent) = Inr u \<and> field u ''trades'' = Inr tr
        \<and> snd (handleUpload B srv f st sent) =
            sent @ [upload_request B f,
                    analyze_request B \<lparr>trades = tr, initial_capital = initialCapital st,
                       n_simulations = 10000, n_sample_paths = 500\<rparr>])"
  unfolding handleUpload_def uploadFile_def runAnalysis_def fetch_def Let_def
  by (auto split: sum.splits prod.splits)

text \<open>
  C5. Every analysis request sent by a run of \<open>handleUpload\<close> has \<open>n_simulations = 10000\<close>
  and \<open>n_sample_paths = 500\<close>, so \<open>n_sample_paths \<le> n_simulations\<close> holds for it.
\<close>

theorem handleUpload_request_parameters:
  "\<forall>p \<in> set (analysis_payloads (drop (length sent) (snd (handleUpload B srv f st sent)))).
     n_simulations p = 10000 \<and> n_sample_paths p = 500 \<and> n_sample_paths p \<le> n_simulations p"
  using handleUpload_sent [of B srv f st sent]
  by (auto simp: upload_request_def analyze_request_def)

theorem handleUpload_request_parameters_witness:
  "analysis_payloads (drop (length []) (snd (handleUpload [] example_server ''csv'' example_state [])))
     = [\<lparr>trades = Val (JArr []), initial_capital = 1000000, n_simulations = 10000, n_sample_paths = 500\<rparr>]
   \<and> n_simulations (hd (analysis_payloads (drop (length [])
         (snd (handleUpload [] example_server ''csv'' example_state []))))) = 10000
   \<and> n_sample_paths (hd (analysis_payloads (drop (length [])
         (snd (handleUpload [] example_server ''csv'' example_state []))))) = 500"
proof -
  have e: "analysis_payloads (drop (length []) (snd (handleUpload [] example_server ''csv'' example_state [])))
     = [\<lparr>trades = Val (JArr []), initial_capital = 1000000, n_simulations = 10000, n_sample_paths = 500\<rparr>]"
    by (simp add: handleUpload_def uploadFile_def runAnalysis_def fetch_def example_server_def
        example_state_def handleResponse_def upload_request_def analyze_request_def finally_block_def)
  show ?thesis
    using handleUpload_request_parameters [of "[]" "[]" example_server "''csv''" example_state] e
    by simp
qed




subsection \<open>Analytics and simulation engine\<close>

lemma length_cumsum_from: "length (cumsum_from a xs) = length xs"
  by (induction xs arbitrary: a) simp_all

lemma cumsum_from_nth:
  "j < length xs \<Longrightarrow> cumsum_from a xs ! j = a + sum_list (take (Suc j) xs)"
proof (induction xs arbitrary: a j)
  case Nil
  then show ?case by simp
next
  case (Cons x xs)
  show ?case
  proof (cases j)
    case 0
    then show ?thesis by simp
  next
    case (Suc k)
    with Cons.prems have "k < length xs" by simp
    from Cons.IH [OF this, of "a + x"] Suc show ?thesis by simp
  qed
qed

lemma percentile_between:
  assumes "xs \<noteq> []" "0 \<le> q" "q \<le> 100"
  defines "ys \<equiv> sort xs"
  defines "h \<equiv> (real (length ys) - 1) * q / 100"
  shows "ys ! nat \<lfloor>h\<rfloor> \<le> percentile xs q"
    and "percentile xs q \<le> ys ! min (nat \<lfloor>h\<rfloor> + 1) (length ys - 1)"
    and "nat \<lfloor>h\<rfloor> \<le> length ys - 1"
proof -
  have n: "length ys \<ge> 1" using assms by (cases xs) (simp_all)
  have h0: "0 \<le> h" using assms n by (simp add: h_def)
  have h1: "h \<le> real (length ys - 1)"
  proof -
    have "(real (length ys) - 1) * q \<le> (real (length ys) - 1) * 100"
      using assms n by (intro mult_left_mono) simp_all
    then show ?thesis using n by (simp add: h_def of_nat_diff)
  qed
  let ?lo = "nat \<lfloor>h\<rfloor>"
  let ?hi = "min (?lo + 1) (length ys - 1)"
  show lo: "?lo \<le> length ys - 1"
    using h0 h1 by (metis floor_of_nat floor_mono nat_int nat_mono)
  have fr0: "0 \<le> h - real ?lo" using h0 by (simp add: of_nat_nat)
  have fr1: "h - real ?lo \<le> 1" using h0 by (simp add: of_nat_nat) linarith
  have s: "sorted ys" by (simp add: ys_def)
  have hi: "?hi < length ys" using n by simp
  have le: "ys ! ?lo \<le> ys ! ?hi"
    using s lo hi by (intro sorted_nth_mono) simp_all
  have p: "percentile xs q = ys ! ?lo + (h - real ?lo) * (ys ! ?hi - ys ! ?lo)"
    by (simp add: percentile_def Let_def ys_def h_def)
  show "ys ! ?lo \<le> percentile xs q"
    using fr0 le by (simp add: p)
  have "(h - real ?lo) * (ys ! ?hi - ys ! ?lo) \<le> 1 * (ys ! ?hi - ys ! ?lo)"
    using fr1 le by (intro mult_right_mono) simp_all
  then show "percentile xs q \<le> ys ! ?hi"
    by (simp add: p)
qed


lemma percentile_mono:
  assumes "xs \<noteq> []" "0 \<le> q1" "q1 \<le> q2" "q2 \<le> 100"
  shows "percentile xs q1 \<le> percentile xs q2"
proof -
  define ys where "ys = sort xs"
  define h1 where "h1 = (real (length ys) - 1) * q1 / 100"
  define h2 where "h2 = (real (length ys) - 1) * q2 / 100"
  let ?k1 = "nat \<lfloor>h1\<rfloor>"
  let ?k2 = "nat \<lfloor>h2\<rfloor>"
  have n: "length ys \<ge> 1" using assms(1) by (cases xs) (simp_all add: ys_def)
  have s: "sorted ys" by (simp add: ys_def)
  have h12: "h1 \<le> h2"
  proof -
    have "(real (length ys) - 1) * q1 \<le> (real (length ys) - 1) * q2"
      using assms n by (intro mult_left_mono) simp_all
    then show ?thesis by (simp add: h1_def h2_def)
  qed
  have k12: "?k1 \<le> ?k2" using h12 by (simp add: floor_mono nat_mono)
  have q1: "q1 \<le> 100" and q2: "0 \<le> q2" using assms by simp_all
  note b1 = percentile_between [OF assms(1) assms(2) q1, folded ys_def, folded h1_def]
  note b2 = percentile_between [OF assms(1) q2 assms(4), folded ys_def, folded h2_def]
  show ?thesis
  proof (cases "?k1 = ?k2")
    case True
    let ?hi = "min (?k1 + 1) (length ys - 1)"
    have hi: "?hi < length ys" using n by simp
    have le: "ys ! ?k1 \<le> ys ! ?hi"
      using s b1(3) hi by (intro sorted_nth_mono) simp_all
    have p1: "percentile xs q1 = ys ! ?k1 + (h1 - real ?k1) * (ys ! ?hi - ys ! ?k1)"
      by (simp add: percentile_def Let_def ys_def h1_def)
    have p2: "percentile xs q2 = ys ! ?k1 + (h2 - real ?k1) * (ys ! ?hi - ys ! ?k1)"
      using True by (simp add: percentile_def Let_def ys_def h2_def)
    have "(h1 - real ?k1) * (ys ! ?hi - ys ! ?k1) \<le> (h2 - real ?k1) * (ys ! ?hi - ys ! ?k1)"
      using h12 le by (intro mult_right_mono) simp_all
    then show ?thesis by (simp add: p1 p2)
  next
    case False
    with k12 have lt: "?k1 + 1 \<le> ?k2" by simp
    with b2(3) have m: "min (?k1 + 1) (length ys - 1) = ?k1 + 1" by simp
    have "percentile xs q1 \<le> ys ! (?k1 + 1)" using b1(2) m by simp
    also have "\<dots> \<le> ys ! ?k2"
      using s lt b2(3) n by (intro sorted_nth_mono) simp_all
    also have "\<dots> \<le> percentile xs q2" by (rule b2(1))
    finally show ?thesis .
  qed
qed

lemma median_of_percentile:
  assumes "xs \<noteq> []"
  shows "median_of xs = percentile xs 50"
proof -
  define ys where "ys = sort xs"
  define n where "n = length ys"
  have n: "n \<ge> 1" using assms by (cases xs) (simp_all add: ys_def n_def)
  show ?thesis
  proof (cases "odd n")
    case True
    then obtain m where m: "n = 2 * m + 1" by (auto elim: oddE)
    have h: "(real n - 1) * 50 / 100 = real m" by (simp add: m)
    have "percentile xs 50 = ys ! m"
      unfolding percentile_def Let_def ys_def [symmetric] n_def [symmetric] h by simp
    moreover have "median_of xs = ys ! m"
      unfolding median_of_def Let_def ys_def [symmetric] n_def [symmetric] using True
      by (simp add: m)
    ultimately show ?thesis by simp
  next
    case False
    then obtain m where m: "n = 2 * m" by (auto elim: evenE)
    with n obtain k where k: "m = Suc k" by (cases m) simp_all
    have h: "(real n - 1) * 50 / 100 = real k + 1 / 2" by (simp add: m k)
    have fl: "\<lfloor>real k + 1 / 2\<rfloor> = int k" by linarith
    have "percentile xs 50 = ys ! k + (1 / 2) * (ys ! (k + 1) - ys ! k)"
      unfolding percentile_def Let_def ys_def [symmetric] n_def [symmetric] h fl
      by (simp add: m k)
    moreover have "median_of xs = (ys ! k + ys ! (k + 1)) / 2"
      unfolding median_of_def Let_def ys_def [symmetric] n_def [symmetric] using False
      by (simp add: m k)
    ultimately show ?thesis by (simp add: field_simps)
  qed
qed

lemma validate_None: "validate req = None \<longleftrightarrow> valid_request req"
  unfolding validate_def valid_request_def by auto

lemma validate_Some: "validate req = Some e \<Longrightarrow> \<exists>why. e = InvalidInput why"
  by (cases e) simp

lemma analyze_valid:
  assumes "valid_request req"
  shows "analyze draw req =
     Inr \<lparr>mc_distribution =
            \<lparr>final_equities =
               map last (simulate draw (map pnl (trades req)) (initial_capital req)
                 (nat (n_simulations req))),
             mean_final =
               sum_list (map last (simulate draw (map pnl (trades req)) (initial_capital req)
                 (nat (n_simulations req)))) / real (nat (n_simulations req)),
             median_final =
               median_of (map last (simulate draw (map pnl (trades req)) (initial_capital req)
                 (nat (n_simulations req)))),
             p5_final =
               percentile (map last (simulate draw (map pnl (trades req)) (initial_capital req)
                 (nat (n_simulations req)))) 5,
             p95_final =
               percentile (map last (simulate draw (map pnl (trades req)) (initial_capital req)
                 (nat (n_simulations req)))) 95\<rparr>,
          mc_paths =
            \<lparr>median_path = band (simulate draw (map pnl (trades req)) (initial_capital req)
                 (nat (n_simulations req))) (length (trades req)) 50,
             p5_path = band (simulate draw (map pnl (trades req)) (initial_capital req)
                 (nat (n_simulations req))) (length (trades req)) 5,
             p25_path = band (simulate draw (map pnl (trades req)) (initial_capital req)
                 (nat (n_simulations req))) (length (trades req)) 25,
             p75_path = band (simulate draw (map pnl (trades req)) (initial_capital req)
                 (nat (n_simulations req))) (length (trades req)) 75,
             p95_path = band (simulate draw (map pnl (trades req)) (initial_capital req)
                 (nat (n_simulations req))) (length (trades req)) 95,
             sample_paths = take (nat (n_sample_paths req))
               (simulate draw (map pnl (trades req)) (initial_capital req)
                 (nat (n_simulations req)))\<rparr>,
          equity_curve =
            \<lparr>exit_times = map exit_time (trades req),
             equity = equity_path (initial_capital req) (map pnl (trades req))\<rparr>,
          pnl_series = map pnl (trades req)\<rparr>"
  using assms validate_None [of req]
  by (simp add: analyze_def run_engine_def Let_def)

lemma equity_path_nth:
  "j < length p \<Longrightarrow> equity_path C p ! j = C + sum_list (take (Suc j) p)"
  by (simp add: equity_path_def cumsum_def length_cumsum_from cumsum_from_nth)

lemma length_equity_path: "length (equity_path C p) = length p"
  by (simp add: equity_path_def cumsum_def length_cumsum_from)

text \<open>
  C1. For every valid analysis request (non-empty trade list, positive initial capital,
  admissible counts), the engine returns a response whose \<open>equity_curve.equity\<close> has
  exactly as many entries as there are trades, with \<open>equity[j]\<close> the initial capital plus
  the sum of \<open>pnl[0..j]\<close> for every index \<open>j\<close>.
\<close>

theorem equity_curve_cumulative:
  assumes "valid_request req"
  shows "\<exists>r. analyze draw req = Inr r
           \<and> length (equity (equity_curve r)) = length (trades req)
           \<and> (\<forall>j < length (trades req).
                 equity (equity_curve r) ! j
                   = initial_capital req + sum_list (take (Suc j) (map pnl (trades req))))"
  using analyze_valid [OF assms, of draw]
  by (simp add: length_equity_path equity_path_nth)

theorem equity_curve_cumulative_witness:
  "valid_request example_request
   \<and> (\<exists>r. analyze example_draw example_request = Inr r
          \<and> length (equity (equity_curve r)) = 3
          \<and> equity (equity_curve r) ! 0 = 1100
          \<and> equity (equity_curve r) ! 1 = 1050
          \<and> equity (equity_curve r) ! 2 = 1250)"
proof -
  have v: "valid_request example_request"
    by (simp add: valid_request_def example_request_def)
  have t: "map pnl (trades example_request) = [100, - 50, 200]"
    by (simp add: example_request_def example_trade_def)
  have c: "initial_capital example_request = 1000" "length (trades example_request) = 3"
    by (simp_all add: example_request_def)
  from equity_curve_cumulative [OF v, of example_draw]
  obtain r where r: "analyze example_draw example_request = Inr r"
    "length (equity (equity_curve r)) = length (trades example_request)"
    "\<forall>j < length (trades example_request). equity (equity_curve r) ! j
        = initial_capital example_request
          + sum_list (take (Suc j) (map pnl (trades example_request)))"
    by blast
  have "equity (equity_curve r) ! 0 = 1100" "equity (equity_curve r) ! 1 = 1050"
    "equity (equity_curve r) ! 2 = 1250"
    using r(3) by (simp_all add: t c)
  with v r(1) r(2) c show ?thesis by simp
qed

text \<open>
  C2. For every request with an empty trade sequence, a non-positive initial capital, a
  non-positive simulation or sample count, or \<open>n_sample_paths > n_simulations\<close>, the
  engine fails with InvalidInput, with no array allocated and no response, partial or
  whole.
\<close>

theorem invalid_request_rejected:
  assumes "trades req = [] \<or> initial_capital req \<le> 0 \<or> n_simulations req \<le> 0
           \<or> n_sample_paths req \<le> 0 \<or> n_sample_paths req > n_simulations req"
  shows "(\<exists>why. analyze draw req = Inl (InvalidInput why))
         \<and> run_engine draw req = ([], analyze draw req)"
proof -
  from assms have "\<not> valid_request req" by (auto simp: valid_request_def)
  then obtain e where e: "validate req = Some e"
    using validate_None [of req] by (cases "validate req") simp_all
  then obtain why where "e = InvalidInput why" using validate_Some by blast
  with e show ?thesis by (simp add: analyze_def run_engine_def)
qed

theorem invalid_request_rejected_witness:
  "n_simulations (example_request\<lparr>n_simulations := 0\<rparr>) \<le> 0
   \<and> analyze example_draw (example_request\<lparr>n_simulations := 0\<rparr>) = Inl (InvalidInput ''n_simulations'')
   \<and> fst (run_engine example_draw (example_request\<lparr>n_simulations := 0\<rparr>)) = []
   \<and> trades (example_request\<lparr>trades := []\<rparr>) = []
   \<and> analyze example_draw (example_request\<lparr>trades := []\<rparr>) = Inl (InvalidInput ''trades'')
   \<and> fst (run_engine example_draw (example_request\<lparr>trades := []\<rparr>)) = []"
proof -
  have a: "n_simulations (example_request\<lparr>n_simulations := 0\<rparr>) \<le> 0" by simp
  have b: "trades (example_request\<lparr>trades := []\<rparr>) = []" by simp
  have c: "validate (example_request\<lparr>n_simulations := 0\<rparr>) = Some (InvalidInput ''n_simulations'')"
    by (simp add: validate_def example_request_def)
  have d: "validate (example_request\<lparr>trades := []\<rparr>) = Some (InvalidInput ''trades'')"
    by (simp add: validate_def example_request_def)
  show ?thesis
    using invalid_request_rejected [of "example_request\<lparr>n_simulations := 0\<rparr>" example_draw]
      invalid_request_rejected [of "example_request\<lparr>trades := []\<rparr>" example_draw] a b c d
    by (simp add: analyze_def run_engine_def)
qed

lemma length_simulate: "length (simulate draw p C S) = S"
  by (simp add: simulate_def resample_def)

lemma band_nth: "j < n \<Longrightarrow> band paths n q ! j = percentile (column j paths) q"
  by (simp add: band_def)

lemma length_band: "length (band paths n q) = n"
  by (simp add: band_def)

lemma band_ordered:
  assumes "paths \<noteq> []" "j < n"
  shows "band paths n 5 ! j \<le> band paths n 25 ! j"
    and "band paths n 25 ! j \<le> band paths n 50 ! j"
    and "band paths n 50 ! j \<le> band paths n 75 ! j"
    and "band paths n 75 ! j \<le> band paths n 95 ! j"
proof -
  have c: "column j paths \<noteq> []" using assms(1) by (simp add: column_def)
  show "band paths n 5 ! j \<le> band paths n 25 ! j"
    using percentile_mono [OF c, of 5 25] assms(2) by (simp add: band_nth)
  show "band paths n 25 ! j \<le> band paths n 50 ! j"
    using percentile_mono [OF c, of 25 50] assms(2) by (simp add: band_nth)
  show "band paths n 50 ! j \<le> band paths n 75 ! j"
    using percentile_mono [OF c, of 50 75] assms(2) by (simp add: band_nth)
  show "band paths n 75 ! j \<le> band paths n 95 ! j"
    using percentile_mono [OF c, of 75 95] assms(2) by (simp add: band_nth)
qed

lemma final_percentiles_ordered:
  assumes "xs \<noteq> []"
  shows "percentile xs 5 \<le> median_of xs" and "median_of xs \<le> percentile xs 95"
  using percentile_mono [OF assms, of 5 50] percentile_mono [OF assms, of 50 95]
  by (simp_all add: median_of_percentile [OF assms])

text \<open>
  C3. For every valid analysis request, the five path bands have one entry per trade
  and are pointwise ordered, \<open>p5_path[j] \<le> p25_path[j] \<le> median_path[j] \<le> p75_path[j] \<le>
  p95_path[j]\<close> for every time index \<open>j\<close>, and the final-equity percentiles satisfy
  \<open>p5 \<le> median_final \<le> p95\<close>.
\<close>

theorem percentile_bands_ordered:
  assumes "valid_request req"
  shows "\<exists>r. analyze draw req = Inr r
           \<and> length (p5_path (mc_paths r)) = length (trades req)
           \<and> length (p25_path (mc_paths r)) = length (trades req)
           \<and> length (median_path (mc_paths r)) = length (trades req)
           \<and> length (p75_path (mc_paths r)) = length (trades req)
           \<and> length (p95_path (mc_paths r)) = length (trades req)
           \<and> (\<forall>j < length (trades req).
                 p5_path (mc_paths r) ! j \<le> p25_path (mc_paths r) ! j
                 \<and> p25_path (mc_paths r) ! j \<le> median_path (mc_paths r) ! j
                 \<and> median_path (mc_paths r) ! j \<le> p75_path (mc_paths r) ! j
                 \<and> p75_path (mc_paths r) ! j \<le> p95_path (mc_paths r) ! j)
           \<and> p5_final (mc_distribution r) \<le> median_final (mc_distribution r)
           \<and> median_final (mc_distribution r) \<le> p95_final (mc_distribution r)"
proof -
  let ?paths = "simulate draw (map pnl (trades req)) (initial_capital req)
                  (nat (n_simulations req))"
  have "length ?paths = nat (n_simulations req)" by (rule length_simulate)
  with assms have ne: "?paths \<noteq> []" by (auto simp: valid_request_def)
  then have fe: "map last ?paths \<noteq> []" by simp
  show ?thesis
    using analyze_valid [OF assms, of draw] band_ordered [OF ne]
      final_percentiles_ordered [OF fe]
    by (simp add: length_band)
qed

theorem percentile_bands_ordered_witness:
  "valid_request example_request
   \<and> (\<exists>r. analyze example_draw example_request = Inr r
          \<and> length (median_path (mc_paths r)) = 3
          \<and> p5_path (mc_paths r) ! 1 \<le> p25_path (mc_paths r) ! 1
          \<and> p25_path (mc_paths r) ! 1 \<le> median_path (mc_paths r) ! 1
          \<and> median_path (mc_paths r) ! 1 \<le> p75_path (mc_paths r) ! 1
          \<and> p75_path (mc_paths r) ! 1 \<le> p95_path (mc_paths r) ! 1
          \<and> p5_final (mc_distribution r) \<le> median_final (mc_distribution r)
          \<and> median_final (mc_distribution r) \<le> p95_final (mc_distribution r))"
proof -
  have v: "valid_request example_request"
    by (simp add: valid_request_def example_request_def)
  have c: "length (trades example_request) = 3"
    by (simp add: example_request_def)
  from percentile_bands_ordered [OF v, of example_draw] v c show ?thesis
    by auto
qed

end
